theory Spec2Isabelle
  imports Main
begin

section \<open>Values of the backend application module\<close>

text \<open>
  The module \<^verbatim>\<open>src/backend/app.py\<close> is glue: every interesting value comes from a
  collaborator (credential provider, client factory, agent factory). The objects they
  return are opaque to the module, so they are modelled as tagged identities.

  An \<open>exn\<close> is an exception object that is an instance of Python's \<^verbatim>\<open>Exception\<close>, the class
  that every handler of the module names (\<^verbatim>\<open>except Exception\<close>).
\<close>

datatype exn = Exception string

datatype cred = Credential nat

datatype client = Client nat

datatype agents = SqlAgents nat

text \<open>
  \<^verbatim>\<open>AgentBaseConfig(project_client=azure_client, sql_from="informix", sql_to="tsql")\<close>:
  the first argument is whatever the module global \<^verbatim>\<open>azure_client\<close> holds at the call,
  which in Python may be \<^verbatim>\<open>None\<close>.
\<close>

record agent_base_config =
  project_client :: "client option"
  sql_from :: string
  sql_to :: string

text \<open>\<^verbatim>\<open>app_config.azure_client_id\<close> and \<^verbatim>\<open>app_config.ai_project_endpoint\<close>.\<close>

record config =
  azure_client_id :: string
  ai_project_endpoint :: string

text \<open>
  What the module does to the outside, in the order it does it: calls of collaborators
  (with their arguments), log records, and the \<^verbatim>\<open>yield\<close> of the lifespan generator.
\<close>

datatype event =
    LogInfo string
  | LogWarning string
  | LogError string exn
  | GetAzureCredential string
  | CreateClient cred string
  | AgentBaseConfig agent_base_config
  | SqlAgentsCreate agent_base_config
  | SetSqlAgents "agents option"
  | Yield
  | DeleteAgents agents
  | ClearSqlAgents
  | CloseClient client
  | OtelImports
  | ResourceCreate string
  | TracerProvider
  | OTLPSpanExporter string
  | BatchSpanProcessor
  | AddSpanProcessor
  | SetTracerProvider
  | InstrumentApp
  | RequestsInstrument

text \<open>
  The collaborators, as the module sees them: each call either returns a value
  (\<open>Inr\<close>, or \<open>None\<close> for a call whose result is not used) or raises (\<open>Inl e\<close>, \<open>Some e\<close>).
\<close>

record env =
  app_config :: config
  get_azure_credential :: "string \<Rightarrow> exn + cred"
  create_client :: "cred \<Rightarrow> string \<Rightarrow> exn + client"
  AgentBaseConfig_init :: "agent_base_config \<Rightarrow> exn option"
  SqlAgents_create :: "agent_base_config \<Rightarrow> exn + agents"
  set_sql_agents_raises :: "agents option \<Rightarrow> exn option"
  delete_agents :: "agents \<Rightarrow> exn option"
  clear_sql_agents_raises :: "exn option"
  close :: "client \<Rightarrow> exn option"

text \<open>
  The process-wide state: the two module globals of \<^verbatim>\<open>app.py\<close> (lines 58 and 59), the
  reference that \<^verbatim>\<open>sql_agents.agent_manager\<close> keeps for the route layer, and the
  events so far.
\<close>

record world =
  sql_agents :: "agents option"
  azure_client :: "client option"
  published :: "agents option"
  trace :: "event list"

definition init_world :: world where
  "init_world = \<lparr>sql_agents = None, azure_client = None, published = None, trace = []\<rparr>"


section \<open>Statements that may raise\<close>

text \<open>
  A block of statements takes the world and ends either normally with a value or with a
  raised exception, in both cases with the world as it left it.
\<close>

type_synonym 'a prog = "world \<Rightarrow> (exn + 'a) \<times> world"

definition returns :: "'a \<Rightarrow> 'a prog" where
  "returns x = (\<lambda>w. (Inr x, w))"

definition raises :: "exn \<Rightarrow> 'a prog" where
  "raises e = (\<lambda>w. (Inl e, w))"

text \<open>Sequencing: a raise in the first statement skips the rest.\<close>

definition andthen :: "'a prog \<Rightarrow> ('a \<Rightarrow> 'b prog) \<Rightarrow> 'b prog" where
  "andthen m f = (\<lambda>w. case m w of (Inl e, w') \<Rightarrow> (Inl e, w') | (Inr x, w') \<Rightarrow> f x w')"

text \<open>\<^verbatim>\<open>try: m  except Exception as exc: h exc\<close>\<close>

definition try_except :: "'a prog \<Rightarrow> (exn \<Rightarrow> 'a prog) \<Rightarrow> 'a prog" where
  "try_except m h = (\<lambda>w. case m w of (Inl e, w') \<Rightarrow> h e w' | (Inr x, w') \<Rightarrow> (Inr x, w'))"

definition gets :: "(world \<Rightarrow> 'a) \<Rightarrow> 'a prog" where
  "gets f = (\<lambda>w. (Inr (f w), w))"

definition modify :: "(world \<Rightarrow> world) \<Rightarrow> unit prog" where
  "modify f = (\<lambda>w. (Inr (), f w))"

definition emit :: "event \<Rightarrow> unit prog" where
  "emit ev = modify (\<lambda>w. w\<lparr>trace := trace w @ [ev]\<rparr>)"

text \<open>A call of a collaborator: the call is made, then it returns or raises.\<close>

definition call :: "event \<Rightarrow> exn + 'a \<Rightarrow> 'a prog" where
  "call ev outcome = andthen (emit ev) (\<lambda>_. case outcome of Inl e \<Rightarrow> raises e | Inr v \<Rightarrow> returns v)"

definition call_unit :: "event \<Rightarrow> exn option \<Rightarrow> unit prog" where
  "call_unit ev outcome = andthen (emit ev) (\<lambda>_. case outcome of Some e \<Rightarrow> raises e | None \<Rightarrow> returns ())"


section \<open>The accessors of the agent manager\<close>

text \<open>
  Modelled from the spec: \<^verbatim>\<open>set_sql_agents\<close> and \<^verbatim>\<open>clear_sql_agents\<close> live in
  \<^verbatim>\<open>sql_agents/agent_manager.py\<close>, which is not among the sources. The spec gives them as
  the process-wide accessors \<^verbatim>\<open>setAgents(AgentSet)\<close> and \<^verbatim>\<open>clearAgents()\<close> "used to
  publish/retract state for the route layer": the first stores its argument in the
  published reference, the second resets that reference to absent. Like every other
  collaborator they may raise, in which case the model leaves the reference as it was.
\<close>

definition set_sql_agents :: "env \<Rightarrow> agents option \<Rightarrow> unit prog" where
  "set_sql_agents env a =
     andthen (call_unit (SetSqlAgents a) (set_sql_agents_raises env a)) (\<lambda>_.
     modify (\<lambda>w. w\<lparr>published := a\<rparr>))"

definition clear_sql_agents :: "env \<Rightarrow> unit prog" where
  "clear_sql_agents env =
     andthen (call_unit ClearSqlAgents (clear_sql_agents_raises env)) (\<lambda>_.
     modify (\<lambda>w. w\<lparr>published := None\<rparr>))"

text \<open>The constructor call \<^verbatim>\<open>AgentBaseConfig(project_client=..., sql_from=..., sql_to=...)\<close>.\<close>

definition new_AgentBaseConfig :: "env \<Rightarrow> client option \<Rightarrow> string \<Rightarrow> string \<Rightarrow> agent_base_config prog" where
  "new_AgentBaseConfig env pc sf st =
     (let cfg = \<lparr>project_client = pc, sql_from = sf, sql_to = st\<rparr>
      in andthen (call_unit (AgentBaseConfig cfg) (AgentBaseConfig_init env cfg)) (\<lambda>_. returns cfg))"


section \<open>The lifespan generator\<close>

text \<open>
  The configuration value that startup builds for a client \<open>c\<close>: the module global
  \<^verbatim>\<open>azure_client\<close> (then holding \<open>c\<close>) and the two default dialects of lines 81 and 82.
\<close>

definition default_config :: "client \<Rightarrow> agent_base_config" where
  "default_config c = \<lparr>project_client = Some c, sql_from = ''informix'', sql_to = ''tsql''\<rparr>"

text \<open>Lines 68 to 90: the body of the startup \<^verbatim>\<open>try\<close>.\<close>

definition startup_body :: "env \<Rightarrow> unit prog" where
  "startup_body env =
     andthen (emit (LogInfo ''Initializing SQL agents...'')) (\<lambda>_.
     andthen (call (GetAzureCredential (azure_client_id (app_config env)))
                   (get_azure_credential env (azure_client_id (app_config env)))) (\<lambda>creds.
     andthen (call (CreateClient creds (ai_project_endpoint (app_config env)))
                   (create_client env creds (ai_project_endpoint (app_config env)))) (\<lambda>c.
     andthen (modify (\<lambda>w. w\<lparr>azure_client := Some c\<rparr>)) (\<lambda>_.
     andthen (gets azure_client) (\<lambda>ac.
     andthen (new_AgentBaseConfig env ac ''informix'' ''tsql'') (\<lambda>agent_config.
     andthen (call (SqlAgentsCreate agent_config) (SqlAgents_create env agent_config)) (\<lambda>h.
     andthen (modify (\<lambda>w. w\<lparr>sql_agents := Some h\<rparr>)) (\<lambda>_.
     andthen (gets sql_agents) (\<lambda>sa.
     andthen (set_sql_agents env sa) (\<lambda>_.
     emit (LogInfo ''SQL agents initialized successfully.'')))))))))))"

text \<open>Lines 68 to 94: the startup \<^verbatim>\<open>try\<close> with its handler, which logs and does not raise.\<close>

definition startup :: "env \<Rightarrow> unit prog" where
  "startup env =
     try_except (startup_body env)
       (\<lambda>exc. emit (LogError ''Failed to initialize SQL agents: %s'' exc))"

text \<open>
  Modelled from the spec: the classes of the two handles (\<^verbatim>\<open>SqlAgents\<close> and the client
  that \<^verbatim>\<open>AzureAIAgent.create_client\<close> returns) are not among the sources, so what the
  truth tests \<^verbatim>\<open>if sql_agents:\<close> and \<^verbatim>\<open>if azure_client:\<close> give on a handle object is
  taken from the spec, which words them "if an agent set is present" and "if a client
  handle is present": a handle object is true, only \<^verbatim>\<open>None\<close> is false.
\<close>

definition handle_truth :: "'a \<Rightarrow> bool" where
  "handle_truth h = True"

text \<open>Lines 100 to 109: the body of the shutdown \<^verbatim>\<open>try\<close>.\<close>

definition shutdown_body :: "env \<Rightarrow> unit prog" where
  "shutdown_body env =
     andthen (gets sql_agents) (\<lambda>sa.
     andthen (case sa of
                None \<Rightarrow> returns ()
              | Some h \<Rightarrow>
                  if handle_truth h then
                    andthen (emit (LogInfo ''Application shutting down - cleaning up SQL agents...'')) (\<lambda>_.
                    andthen (call_unit (DeleteAgents h) (delete_agents env h)) (\<lambda>_.
                    andthen (emit (LogInfo ''SQL agents cleaned up successfully.'')) (\<lambda>_.
                    clear_sql_agents env)))
                  else returns ()) (\<lambda>_.
     andthen (gets azure_client) (\<lambda>ac.
     case ac of
       None \<Rightarrow> returns ()
     | Some c \<Rightarrow> if handle_truth c then call_unit (CloseClient c) (close env c) else returns ())))"

text \<open>Lines 99 to 112: the shutdown \<^verbatim>\<open>try\<close> with its handler.\<close>

definition shutdown :: "env \<Rightarrow> unit prog" where
  "shutdown env =
     try_except (shutdown_body env)
       (\<lambda>exc. emit (LogError ''Error during agent cleanup: %s'' exc))"

text \<open>The whole generator: startup, the \<^verbatim>\<open>yield\<close> during which the application runs, shutdown.\<close>

definition lifespan :: "env \<Rightarrow> unit prog" where
  "lifespan env = andthen (startup env) (\<lambda>_. andthen (emit Yield) (\<lambda>_. shutdown env))"

text \<open>
  The process states that can be observed: the state after the module was imported, and
  from any such state the state after a startup, at the \<^verbatim>\<open>yield\<close>, and after a shutdown,
  whatever the collaborators do. (The spec runs each routine once per process; the
  relation also covers a lifespan that is entered again.)
\<close>

inductive reachable :: "world \<Rightarrow> bool" where
  initial: "reachable init_world"
| after_startup: "reachable w \<Longrightarrow> reachable (snd (startup env w))"
| serving: "reachable w \<Longrightarrow> reachable (snd (emit Yield w))"
| after_shutdown: "reachable w \<Longrightarrow> reachable (snd (shutdown env w))"


section \<open>The application object\<close>

datatype http_method = GET | POST | PUT | DELETE | PATCH | OPTIONS | HEAD

type_synonym json_object = "(string \<times> string) list"

record response =
  status_code :: nat
  body :: json_object

text \<open>A registered route; its endpoint may read the process-wide state.\<close>

record route =
  route_method :: http_method
  route_path :: string
  route_tags :: "string list"
  endpoint :: "world \<Rightarrow> response"

record cors =
  allow_origins :: "string list"
  allow_credentials :: bool
  allow_methods :: "string list"
  allow_headers :: "string list"

datatype middleware = CORSMiddleware cors

record fastapi =
  title :: string
  version :: string
  instrumented :: bool
  user_middleware :: "middleware list"
  routes :: "route list"

text \<open>
  The telemetry collaborator: what each statement of the module-level block (lines 30 to
  46) and of the instrumentation block (lines 122 and 123) does, \<open>Some e\<close> when it raises.
  The seven \<^verbatim>\<open>import\<close> statements are one step: the first that fails raises.
\<close>

record otel =
  otel_imports :: "exn option"
  Resource_create :: "exn option"
  TracerProvider_init :: "exn option"
  OTLPSpanExporter_init :: "exn option"
  BatchSpanProcessor_init :: "exn option"
  add_span_processor :: "exn option"
  set_tracer_provider :: "exn option"
  instrument_app :: "exn option"
  RequestsInstrumentor_instrument :: "exn option"

text \<open>Lines 29 to 52: the result is the module global \<^verbatim>\<open>_otel_available\<close>.\<close>

definition otel_setup :: "otel \<Rightarrow> bool prog" where
  "otel_setup tel =
     try_except
       (andthen (call_unit OtelImports (otel_imports tel)) (\<lambda>_.
        andthen (call_unit (ResourceCreate ''code-gen-accelerator-backend'') (Resource_create tel)) (\<lambda>_.
        andthen (call_unit TracerProvider (TracerProvider_init tel)) (\<lambda>_.
        andthen (call_unit (OTLPSpanExporter ''http://localhost:4319'') (OTLPSpanExporter_init tel)) (\<lambda>_.
        andthen (call_unit BatchSpanProcessor (BatchSpanProcessor_init tel)) (\<lambda>_.
        andthen (call_unit AddSpanProcessor (add_span_processor tel)) (\<lambda>_.
        andthen (call_unit SetTracerProvider (set_tracer_provider tel)) (\<lambda>_.
        returns True))))))))
       (\<lambda>_. returns False)"

text \<open>
  Modelled from the spec: the web framework is a library outside the sources. Of its
  application object the model keeps what the calls of \<^verbatim>\<open>create_app\<close> record: the
  title and version, the middleware added (the newest first), and the routes in the
  order of their registration. Including a router registers each of its routes under
  the prefix (the spec: "all other routes are mounted under prefix /api"), and a route
  registered with \<^verbatim>\<open>@app.get\<close> answers \<^verbatim>\<open>GET\<close> with status 200 and the dictionary that
  its handler returns (the spec: "GET /health -> 200").
\<close>

definition FastAPI :: "string \<Rightarrow> string \<Rightarrow> fastapi" where
  "FastAPI t v = \<lparr>title = t, version = v, instrumented = False, user_middleware = [], routes = []\<rparr>"

definition add_middleware :: "middleware \<Rightarrow> fastapi \<Rightarrow> fastapi" where
  "add_middleware m app = app\<lparr>user_middleware := m # user_middleware app\<rparr>"

definition mount :: "string \<Rightarrow> string list \<Rightarrow> route \<Rightarrow> route" where
  "mount prefix tags r = r\<lparr>route_path := prefix @ route_path r, route_tags := tags @ route_tags r\<rparr>"

definition include_router :: "route list \<Rightarrow> string \<Rightarrow> string list \<Rightarrow> fastapi \<Rightarrow> fastapi" where
  "include_router router prefix tags app = app\<lparr>routes := routes app @ map (mount prefix tags) router\<rparr>"

definition app_get :: "string \<Rightarrow> (world \<Rightarrow> json_object) \<Rightarrow> fastapi \<Rightarrow> fastapi" where
  "app_get path handler app =
     app\<lparr>routes := routes app @
        [\<lparr>route_method = GET, route_path = path, route_tags = [],
          endpoint = (\<lambda>w. \<lparr>status_code = 200, body = handler w\<rparr>)\<rparr>]\<rparr>"

text \<open>
  Modelled from the spec: the framework's routing is outside the sources; a request is
  answered by the first registered route with its method and its path. \<open>None\<close> stands
  for the framework's own answer when no route matches.
\<close>

definition handle_request :: "fastapi \<Rightarrow> world \<Rightarrow> http_method \<Rightarrow> string \<Rightarrow> response option" where
  "handle_request app w m p =
     (case find (\<lambda>r. route_method r = m \<and> route_path r = p) (routes app) of
        None \<Rightarrow> None
      | Some r \<Rightarrow> Some (endpoint r w))"

text \<open>Lines 142 to 144: the handler takes no argument and reads no global.\<close>

definition health_check :: json_object where
  "health_check = [(''status'', ''healthy'')]"

text \<open>
  Lines 121 to 126: the instrumentation \<^verbatim>\<open>try\<close> with its handler. The call
  \<^verbatim>\<open>FastAPIInstrumentor.instrument_app(app)\<close> works on the application object in place:
  once it has returned, the application is instrumented, also when the call after it
  raises and the handler runs.
\<close>

definition instrument :: "otel \<Rightarrow> fastapi \<Rightarrow> fastapi prog" where
  "instrument tel app =
     andthen
       (try_except
          (andthen (call_unit InstrumentApp (instrument_app tel)) (\<lambda>_.
           call_unit RequestsInstrument (RequestsInstrumentor_instrument tel)))
          (\<lambda>_. emit (LogWarning ''OpenTelemetry instrumentation failed to initialize.''))) (\<lambda>_.
     returns (app\<lparr>instrumented := (case instrument_app tel of None \<Rightarrow> True | Some _ \<Rightarrow> False)\<rparr>))"

text \<open>
  Lines 115 to 146. The router of \<^verbatim>\<open>api.api_routes\<close> is not among the sources: its routes
  are a parameter. The argument \<^verbatim>\<open>lifespan=lifespan\<close> of line 117 hands the generator above
  to the framework, which runs it around the serving of requests.
\<close>

definition create_app :: "otel \<Rightarrow> route list \<Rightarrow> bool \<Rightarrow> fastapi prog" where
  "create_app tel backend_router otel_available =
     andthen (returns (FastAPI ''Code Gen Accelerator'' ''1.0.0'')) (\<lambda>app.
     andthen (if otel_available then instrument tel app else returns app) (\<lambda>app.
     andthen (returns (add_middleware
                (CORSMiddleware \<lparr>allow_origins = [''*''], allow_credentials = True,
                                 allow_methods = [''*''], allow_headers = [''*'']\<rparr>) app)) (\<lambda>app.
     andthen (returns (include_router backend_router ''/api'' [''backend''] app)) (\<lambda>app.
     andthen (returns (app_get ''/health'' (\<lambda>_. health_check) app)) (\<lambda>app.
     returns app)))))"

text \<open>
  Importing the module: the telemetry block (lines 29 to 52), the two globals (lines 58
  and 59), and \<^verbatim>\<open>app = create_app()\<close> (line 149).
\<close>

definition import_module :: "otel \<Rightarrow> route list \<Rightarrow> fastapi prog" where
  "import_module tel backend_router =
     andthen (otel_setup tel) (\<lambda>otel_available.
     andthen (modify (\<lambda>w. w\<lparr>sql_agents := None\<rparr>)) (\<lambda>_.
     andthen (modify (\<lambda>w. w\<lparr>azure_client := None\<rparr>)) (\<lambda>_.
     create_app tel backend_router otel_available)))"


section \<open>Reading a trace\<close>

text \<open>The calls that leave the module for a collaborator during startup and shutdown.\<close>

fun is_remote_call :: "event \<Rightarrow> bool" where
  "is_remote_call (GetAzureCredential _) = True"
| "is_remote_call (CreateClient _ _) = True"
| "is_remote_call (AgentBaseConfig _) = True"
| "is_remote_call (SqlAgentsCreate _) = True"
| "is_remote_call (SetSqlAgents _) = True"
| "is_remote_call (DeleteAgents _) = True"
| "is_remote_call ClearSqlAgents = True"
| "is_remote_call (CloseClient _) = True"
| "is_remote_call _ = False"

definition remote_calls :: "event list \<Rightarrow> event list" where
  "remote_calls tr = filter is_remote_call tr"

fun is_SetSqlAgents :: "event \<Rightarrow> bool" where
  "is_SetSqlAgents (SetSqlAgents _) = True"
| "is_SetSqlAgents _ = False"

text \<open>The events that a block adds to the trace when run in world \<open>w\<close>.\<close>

definition events_of :: "'a prog \<Rightarrow> world \<Rightarrow> event list" where
  "events_of m w = drop (length (trace w)) (trace (snd (m w)))"


text \<open>
  The agent factory was only ever called with a client in the configuration, and an
  agent set that is present (in the module global or in the published reference) comes
  with such a call and with a client handle that is present.
\<close>

definition created_with_client :: "world \<Rightarrow> bool" where
  "created_with_client w \<longleftrightarrow>
     (\<forall>cfg. SqlAgentsCreate cfg \<in> set (trace w) \<longrightarrow> project_client cfg \<noteq> None)
     \<and> (sql_agents w \<noteq> None \<or> published w \<noteq> None \<longrightarrow>
           (\<exists>cfg. SqlAgentsCreate cfg \<in> set (trace w)) \<and> azure_client w \<noteq> None)"


section \<open>Concrete collaborators\<close>

definition env_ok :: env where
  "env_ok =
     \<lparr>app_config = \<lparr>azure_client_id = ''client-id'', ai_project_endpoint = ''https://project.example''\<rparr>,
      get_azure_credential = (\<lambda>_. Inr (Credential 1)),
      create_client = (\<lambda>_ _. Inr (Client 7)),
      AgentBaseConfig_init = (\<lambda>_. None),
      SqlAgents_create = (\<lambda>_. Inr (SqlAgents 3)),
      set_sql_agents_raises = (\<lambda>_. None),
      delete_agents = (\<lambda>_. None),
      clear_sql_agents_raises = None,
      close = (\<lambda>_. None)\<rparr>"

definition boom :: exn where
  "boom = Exception ''boom''"

text \<open>Every collaborator raises.\<close>

definition env_broken :: env where
  "env_broken =
     \<lparr>app_config = \<lparr>azure_client_id = ''client-id'', ai_project_endpoint = ''https://project.example''\<rparr>,
      get_azure_credential = (\<lambda>_. Inl boom),
      create_client = (\<lambda>_ _. Inl boom),
      AgentBaseConfig_init = (\<lambda>_. Some boom),
      SqlAgents_create = (\<lambda>_. Inl boom),
      set_sql_agents_raises = (\<lambda>_. Some boom),
      delete_agents = (\<lambda>_. Some boom),
      clear_sql_agents_raises = Some boom,
      close = (\<lambda>_. Some boom)\<rparr>"

text \<open>Only the deletion of the agents raises; only their creation raises.\<close>

definition env_delete_fails :: env where
  "env_delete_fails = env_ok\<lparr>delete_agents := (\<lambda>_. Some boom)\<rparr>"

definition env_create_fails :: env where
  "env_create_fails = env_ok\<lparr>SqlAgents_create := (\<lambda>_. Inl boom)\<rparr>"

text \<open>The state while the application serves after a successful startup.\<close>

definition ready_world :: world where
  "ready_world =
     \<lparr>sql_agents = Some (SqlAgents 3), azure_client = Some (Client 7),
      published = Some (SqlAgents 3), trace = []\<rparr>"

definition otel_ok :: otel where
  "otel_ok =
     \<lparr>otel_imports = None, Resource_create = None, TracerProvider_init = None,
      OTLPSpanExporter_init = None, BatchSpanProcessor_init = None, add_span_processor = None,
      set_tracer_provider = None, instrument_app = None, RequestsInstrumentor_instrument = None\<rparr>"

definition otel_broken :: otel where
  "otel_broken =
     \<lparr>otel_imports = Some boom, Resource_create = Some boom, TracerProvider_init = Some boom,
      OTLPSpanExporter_init = Some boom, BatchSpanProcessor_init = Some boom,
      add_span_processor = Some boom, set_tracer_provider = Some boom,
      instrument_app = Some boom, RequestsInstrumentor_instrument = Some boom\<rparr>"

text \<open>A router with one route whose answer depends on the published agent set.\<close>

definition demo_router :: "route list" where
  "demo_router =
     [\<lparr>route_method = GET, route_path = ''/health'', route_tags = [],
       endpoint = (\<lambda>w. case published w of
                          None \<Rightarrow> \<lparr>status_code = 503, body = [(''status'', ''unavailable'')]\<rparr>
                        | Some _ \<Rightarrow> \<lparr>status_code = 200, body = [(''status'', ''ready'')]\<rparr>)\<rparr>]"


section \<open>Basic rules\<close>

lemmas prog_defs =
  returns_def raises_def andthen_def try_except_def gets_def modify_def emit_def
  call_def call_unit_def set_sql_agents_def clear_sql_agents_def new_AgentBaseConfig_def
  handle_truth_def

lemmas startup_defs = startup_def startup_body_def prog_defs default_config_def Let_def

lemmas shutdown_defs = shutdown_def shutdown_body_def prog_defs

lemmas app_defs =
  create_app_def instrument_def otel_setup_def import_module_def FastAPI_def
  add_middleware_def include_router_def app_get_def

lemmas concrete_defs =
  env_ok_def env_broken_def env_delete_fails_def env_create_fails_def boom_def
  init_world_def ready_world_def otel_ok_def otel_broken_def demo_router_def

text \<open>Neither routine of the generator lets an exception escape.\<close>

lemma startup_returns: "fst (startup env w) = Inr ()"
  by (simp add: startup_defs Let_def split: sum.splits option.splits)

lemma shutdown_returns: "fst (shutdown env w) = Inr ()"
  by (simp add: shutdown_defs split: sum.splits option.splits)

lemma lifespan_world:
  "snd (lifespan env w) = snd (shutdown env (snd (emit Yield (snd (startup env w)))))"
proof -
  obtain w1 where w1: "startup env w = (Inr (), w1)"
    using startup_returns [of env w] by (cases "startup env w") simp
  then show ?thesis
    by (simp add: lifespan_def andthen_def emit_def modify_def)
qed


section \<open>Shutdown when nothing was initialised\<close>

text \<open>
  C6. A shutdown that starts with both module globals absent returns normally and leaves
  the world exactly as it found it: the trace gains no event, so no collaborator is
  called (no \<^verbatim>\<open>delete_agents\<close>, no \<^verbatim>\<open>clear_sql_agents\<close>, no \<^verbatim>\<open>close\<close>) and nothing is logged.
\<close>

theorem shutdown_uninitialized_noop:
  assumes "sql_agents w = None" and "azure_client w = None"
  shows "shutdown env w = (Inr (), w) \<and> remote_calls (events_of (shutdown env) w) = []"
  using assms
  by (simp add: shutdown_defs events_of_def remote_calls_def)

theorem shutdown_uninitialized_noop_witness:
  "sql_agents init_world = None \<and> azure_client init_world = None
   \<and> shutdown env_broken init_world = (Inr (), init_world)
   \<and> remote_calls (events_of (shutdown env_broken) init_world) = []"
  using shutdown_uninitialized_noop [of init_world env_broken]
  by (simp add: init_world_def)


section \<open>Shutdown from the ready state\<close>

text \<open>
  C1, as the claim states it, fails: with a ready state and a \<^verbatim>\<open>delete_agents\<close> that
  raises, the only collaborator call of the shutdown is that deletion; the close of the
  client is not attempted.
\<close>

theorem close_skipped_when_delete_raises:
  "sql_agents ready_world = Some (SqlAgents 3) \<and> azure_client ready_world = Some (Client 7)
   \<and> delete_agents env_delete_fails (SqlAgents 3) = Some boom
   \<and> CloseClient (Client 7) \<notin> set (events_of (shutdown env_delete_fails) ready_world)
   \<and> remote_calls (events_of (shutdown env_delete_fails) ready_world) = [DeleteAgents (SqlAgents 3)]"
  by (simp add: concrete_defs shutdown_defs events_of_def remote_calls_def)

text \<open>
  C1, amended. From a state with both handles present the shutdown never raises: an
  exception of \<^verbatim>\<open>delete_agents\<close> is caught and logged by the one handler of the block. The
  rest of the block is skipped by it, so the close of the client is attempted exactly
  when \<^verbatim>\<open>delete_agents\<close> and \<^verbatim>\<open>clear_sql_agents\<close> both return normally.
\<close>

theorem shutdown_close_attempted_iff:
  assumes "sql_agents w = Some h" and "azure_client w = Some c"
  shows "fst (shutdown env w) = Inr ()
       \<and> (CloseClient c \<in> set (events_of (shutdown env) w)
            \<longleftrightarrow> delete_agents env h = None \<and> clear_sql_agents_raises env = None)
       \<and> (\<forall>e. delete_agents env h = Some e \<longrightarrow>
            last (trace (snd (shutdown env w))) = LogError ''Error during agent cleanup: %s'' e)"
  using assms
  by (simp add: shutdown_defs events_of_def split: option.splits)

theorem shutdown_close_attempted_iff_witness:
  "sql_agents ready_world = Some (SqlAgents 3) \<and> azure_client ready_world = Some (Client 7)
   \<and> fst (shutdown env_ok ready_world) = Inr ()
   \<and> CloseClient (Client 7) \<in> set (events_of (shutdown env_ok) ready_world)"
  using shutdown_close_attempted_iff [of ready_world "SqlAgents 3" "Client 7" env_ok]
  by (simp add: ready_world_def env_ok_def)

text \<open>
  C8. From the ready state, when \<^verbatim>\<open>delete_agents\<close> raises, \<^verbatim>\<open>clear_sql_agents\<close> is not
  called, and the published reference still holds the agent set after the shutdown,
  which itself returns normally.
\<close>

theorem delete_failure_keeps_published:
  assumes "sql_agents w = Some h" and "azure_client w = Some c" and "published w = Some h"
    and "delete_agents env h = Some e"
  shows "ClearSqlAgents \<notin> set (events_of (shutdown env) w)
       \<and> published (snd (shutdown env w)) = Some h
       \<and> fst (shutdown env w) = Inr ()"
  using assms
  by (simp add: shutdown_defs events_of_def)

theorem delete_failure_keeps_published_witness:
  "sql_agents ready_world = Some (SqlAgents 3) \<and> azure_client ready_world = Some (Client 7)
   \<and> published ready_world = Some (SqlAgents 3)
   \<and> delete_agents env_delete_fails (SqlAgents 3) = Some boom
   \<and> ClearSqlAgents \<notin> set (events_of (shutdown env_delete_fails) ready_world)
   \<and> published (snd (shutdown env_delete_fails ready_world)) = Some (SqlAgents 3)"
  using delete_failure_keeps_published
          [of ready_world "SqlAgents 3" "Client 7" env_delete_fails boom]
  by (simp add: ready_world_def env_delete_fails_def env_ok_def)

text \<open>
  C4, as the claim states it, fails twice. When every call succeeds, the client handle
  \<^verbatim>\<open>azure_client\<close> (and the module's own \<^verbatim>\<open>sql_agents\<close>) still hold their handles after the
  shutdown: the state is not the uninitialised one. And when \<^verbatim>\<open>delete_agents\<close> raises, the
  close is not called at all.
\<close>

theorem shutdown_ready_not_uninitialized:
  "sql_agents ready_world = Some (SqlAgents 3) \<and> azure_client ready_world = Some (Client 7)
   \<and> published ready_world = Some (SqlAgents 3)
   \<and> azure_client (snd (shutdown env_ok ready_world)) = Some (Client 7)
   \<and> sql_agents (snd (shutdown env_ok ready_world)) = Some (SqlAgents 3)
   \<and> delete_agents env_delete_fails (SqlAgents 3) = Some boom
   \<and> CloseClient (Client 7) \<notin> set (events_of (shutdown env_delete_fails) ready_world)"
  by (simp add: concrete_defs shutdown_defs events_of_def)

text \<open>
  C4, amended. From the ready state, when \<^verbatim>\<open>delete_agents\<close> and \<^verbatim>\<open>clear_sql_agents\<close> return
  normally, the collaborator calls of the shutdown are exactly: the deletion of the
  agents, the clearing of the published reference, the close of the client, each once
  and in this order. The shutdown returns normally (also when the close raises), and
  afterwards the published agent set is absent, while the two module globals keep their
  handles: the shutdown never assigns them.
\<close>

theorem shutdown_ready_calls:
  assumes "sql_agents w = Some h" and "azure_client w = Some c" and "published w = Some h"
    and "delete_agents env h = None" and "clear_sql_agents_raises env = None"
  shows "fst (shutdown env w) = Inr ()
       \<and> remote_calls (events_of (shutdown env) w) = [DeleteAgents h, ClearSqlAgents, CloseClient c]
       \<and> published (snd (shutdown env w)) = None
       \<and> sql_agents (snd (shutdown env w)) = Some h
       \<and> azure_client (snd (shutdown env w)) = Some c"
  using assms
  by (simp add: shutdown_defs events_of_def remote_calls_def split: option.splits)

theorem shutdown_ready_calls_witness:
  "sql_agents ready_world = Some (SqlAgents 3) \<and> azure_client ready_world = Some (Client 7)
   \<and> published ready_world = Some (SqlAgents 3)
   \<and> delete_agents env_ok (SqlAgents 3) = None \<and> clear_sql_agents_raises env_ok = None
   \<and> remote_calls (events_of (shutdown env_ok) ready_world)
       = [DeleteAgents (SqlAgents 3), ClearSqlAgents, CloseClient (Client 7)]
   \<and> published (snd (shutdown env_ok ready_world)) = None"
  using shutdown_ready_calls [of ready_world "SqlAgents 3" "Client 7" env_ok]
  by (simp add: ready_world_def env_ok_def)


section \<open>Startup\<close>

text \<open>
  C2. Whichever of the first four steps raises (credential acquisition, client creation,
  construction of the agent configuration, agent creation), the startup returns
  normally: the exception is logged by the handler and not raised again, the generator
  reaches its \<^verbatim>\<open>yield\<close>, \<^verbatim>\<open>set_sql_agents\<close> is not called, and a published agent set that
  was absent is still absent.
\<close>

theorem startup_failure_swallowed:
  assumes "published w = None"
    and "get_azure_credential env (azure_client_id (app_config env)) = Inl e
       \<or> (\<exists>cr. get_azure_credential env (azure_client_id (app_config env)) = Inr cr
            \<and> (create_client env cr (ai_project_endpoint (app_config env)) = Inl e
               \<or> (\<exists>c. create_client env cr (ai_project_endpoint (app_config env)) = Inr c
                     \<and> (AgentBaseConfig_init env (default_config c) = Some e
                        \<or> AgentBaseConfig_init env (default_config c) = None
                           \<and> SqlAgents_create env (default_config c) = Inl e))))"
  shows "fst (startup env w) = Inr ()
       \<and> published (snd (startup env w)) = None
       \<and> filter is_SetSqlAgents (events_of (startup env) w) = []
       \<and> last (trace (snd (startup env w))) = LogError ''Failed to initialize SQL agents: %s'' e
       \<and> Yield \<in> set (events_of (lifespan env) w)"
  using assms
  apply (elim disjE exE conjE)
     apply (simp_all add: startup_defs lifespan_def shutdown_defs Let_def events_of_def
                     split: option.splits)
  done

theorem startup_failure_swallowed_witness:
  "published init_world = None
   \<and> get_azure_credential env_broken (azure_client_id (app_config env_broken)) = Inl boom
   \<and> fst (startup env_broken init_world) = Inr ()
   \<and> published (snd (startup env_broken init_world)) = None
   \<and> Yield \<in> set (events_of (lifespan env_broken) init_world)
   \<and> SqlAgents_create env_create_fails (default_config (Client 7)) = Inl boom
   \<and> fst (startup env_create_fails init_world) = Inr ()
   \<and> published (snd (startup env_create_fails init_world)) = None
   \<and> last (trace (snd (startup env_create_fails init_world)))
       = LogError ''Failed to initialize SQL agents: %s'' boom"
  using startup_failure_swallowed [of init_world env_broken boom]
        startup_failure_swallowed [of init_world env_create_fails boom]
  by (simp add: init_world_def env_broken_def env_create_fails_def env_ok_def)

text \<open>
  C7, as the claim states it, fails in its second half: every call of the startup
  succeeds and the agent factory returns its handle, which is published, but the
  shutdown that follows does not clear the published agent set when \<^verbatim>\<open>delete_agents\<close>
  raises (line 102 raises, line 106 is skipped).
\<close>

theorem published_not_cleared_when_delete_raises:
  "get_azure_credential env_delete_fails (azure_client_id (app_config env_delete_fails))
     = Inr (Credential 1)
   \<and> create_client env_delete_fails (Credential 1) (ai_project_endpoint (app_config env_delete_fails))
     = Inr (Client 7)
   \<and> AgentBaseConfig_init env_delete_fails (default_config (Client 7)) = None
   \<and> SqlAgents_create env_delete_fails (default_config (Client 7)) = Inr (SqlAgents 3)
   \<and> set_sql_agents_raises env_delete_fails (Some (SqlAgents 3)) = None
   \<and> published (snd (startup env_delete_fails init_world)) = Some (SqlAgents 3)
   \<and> published (snd (shutdown env_delete_fails (snd (startup env_delete_fails init_world))))
     = Some (SqlAgents 3)
   \<and> published (snd (lifespan env_delete_fails init_world)) = Some (SqlAgents 3)"
  by (simp add: concrete_defs startup_defs shutdown_defs lifespan_def)

text \<open>
  C7, amended. When every call of the startup succeeds and the agent factory returns
  \<open>h\<close>, the only call of \<^verbatim>\<open>set_sql_agents\<close> has the argument \<open>h\<close>, and the published agent
  set is \<open>h\<close>. A shutdown that follows calls \<^verbatim>\<open>clear_sql_agents\<close> and leaves the published
  agent set absent when its calls \<^verbatim>\<open>delete_agents\<close> and \<^verbatim>\<open>clear_sql_agents\<close> return
  normally.
\<close>

theorem startup_publishes_created_agents:
  assumes "get_azure_credential env (azure_client_id (app_config env)) = Inr cr"
    and "create_client env cr (ai_project_endpoint (app_config env)) = Inr c"
    and "AgentBaseConfig_init env (default_config c) = None"
    and "SqlAgents_create env (default_config c) = Inr h"
    and "set_sql_agents_raises env (Some h) = None"
  shows "published (snd (startup env w)) = Some h
       \<and> filter is_SetSqlAgents (events_of (startup env) w) = [SetSqlAgents (Some h)]
       \<and> (delete_agents env h = None \<and> clear_sql_agents_raises env = None \<longrightarrow>
            ClearSqlAgents \<in> set (events_of (shutdown env) (snd (startup env w)))
            \<and> published (snd (shutdown env (snd (startup env w)))) = None
            \<and> published (snd (lifespan env w)) = None)"
  using assms
  by (simp add: startup_defs lifespan_def shutdown_defs events_of_def split: option.splits)

theorem startup_publishes_created_agents_witness:
  "published (snd (startup env_ok init_world)) = Some (SqlAgents 3)
   \<and> filter is_SetSqlAgents (events_of (startup env_ok) init_world) = [SetSqlAgents (Some (SqlAgents 3))]
   \<and> ClearSqlAgents \<in> set (events_of (shutdown env_ok) (snd (startup env_ok init_world)))
   \<and> published (snd (lifespan env_ok init_world)) = None"
  using startup_publishes_created_agents
          [of env_ok "Credential 1" "Client 7" "SqlAgents 3" init_world]
  by (simp add: env_ok_def default_config_def)

text \<open>
  C3, as the claim states it, fails: \<^verbatim>\<open>azure_client\<close> does not follow the lifecycle of the
  published agent set. A startup that fails in the agent creation, after the client was
  created, leaves \<^verbatim>\<open>azure_client\<close> set; and after a complete run of the generator in
  which every call succeeds, shutdown included, \<^verbatim>\<open>azure_client\<close> is still set.
\<close>

theorem azure_client_kept_after_failure_and_shutdown:
  "azure_client init_world = None
   \<and> create_client env_create_fails (Credential 1) ''https://project.example'' = Inr (Client 7)
   \<and> SqlAgents_create env_create_fails (default_config (Client 7)) = Inl boom
   \<and> azure_client (snd (startup env_create_fails init_world)) = Some (Client 7)
   \<and> azure_client (snd (shutdown env_ok (snd (startup env_ok init_world)))) = Some (Client 7)"
  by (simp add: concrete_defs startup_defs shutdown_defs)

text \<open>
  C3, amended. \<^verbatim>\<open>azure_client\<close> is assigned once client creation has succeeded and is
  never reset afterwards: a startup leaves it as it was when credential acquisition or
  client creation raises, and holding the new client in every other case, also when a
  later step of the startup raises; a shutdown does not change it.
\<close>

theorem azure_client_lifecycle:
  "azure_client (snd (startup env w)) =
     (case get_azure_credential env (azure_client_id (app_config env)) of
        Inl _ \<Rightarrow> azure_client w
      | Inr cr \<Rightarrow>
          (case create_client env cr (ai_project_endpoint (app_config env)) of
             Inl _ \<Rightarrow> azure_client w
           | Inr c \<Rightarrow> Some c))
   \<and> azure_client (snd (shutdown env w)) = azure_client w"
  by (simp add: startup_defs shutdown_defs Let_def split: sum.splits option.splits)

theorem azure_client_lifecycle_witness:
  "azure_client (snd (startup env_broken init_world)) = None
   \<and> azure_client (snd (startup env_create_fails init_world)) = Some (Client 7)
   \<and> azure_client (snd (shutdown env_ok ready_world)) = Some (Client 7)"
  using azure_client_lifecycle [of env_broken init_world]
        azure_client_lifecycle [of env_create_fails init_world]
        azure_client_lifecycle [of env_ok ready_world]
  by (simp add: concrete_defs)


section \<open>The agent set depends on the client\<close>

lemma created_with_client_startup:
  "created_with_client w \<Longrightarrow> created_with_client (snd (startup env w))"
  unfolding created_with_client_def
  by (auto simp add: startup_defs split: sum.splits option.splits)

lemma created_with_client_shutdown:
  "created_with_client w \<Longrightarrow> created_with_client (snd (shutdown env w))"
  unfolding created_with_client_def
  by (auto simp add: shutdown_defs split: sum.splits option.splits)

lemma created_with_client_yield:
  "created_with_client w \<Longrightarrow> created_with_client (snd (emit Yield w))"
  unfolding created_with_client_def
  by (auto simp add: emit_def modify_def)

lemma reachable_created_with_client: "reachable w \<Longrightarrow> created_with_client w"
proof (induction rule: reachable.induct)
  case initial
  show ?case by (simp add: created_with_client_def init_world_def)
next
  case (after_startup w env)
  then show ?case by (simp add: created_with_client_startup)
next
  case (serving w)
  then show ?case by (simp add: created_with_client_yield)
next
  case (after_shutdown w env)
  then show ?case by (simp add: created_with_client_shutdown)
qed

lemma reachable_lifespan: "reachable w \<Longrightarrow> reachable (snd (lifespan env w))"
  by (simp add: lifespan_world reachable.after_startup reachable.serving reachable.after_shutdown)

text \<open>
  C5. In every reachable process state in which the agent set is present (in the module
  global \<^verbatim>\<open>sql_agents\<close> or in the reference published by \<^verbatim>\<open>set_sql_agents\<close>), the agent
  factory was called, and at every call of the agent factory the configuration carried
  a client: its \<^verbatim>\<open>project_client\<close> is the value that \<^verbatim>\<open>azure_client\<close> held at that moment,
  and it was not \<^verbatim>\<open>None\<close>. The client handle is moreover still present in that state.
\<close>

theorem agent_set_needs_client:
  assumes "reachable w" and "sql_agents w \<noteq> None \<or> published w \<noteq> None"
  shows "(\<exists>cfg. SqlAgentsCreate cfg \<in> set (trace w))
       \<and> (\<forall>cfg. SqlAgentsCreate cfg \<in> set (trace w) \<longrightarrow> project_client cfg \<noteq> None)
       \<and> azure_client w \<noteq> None"
  using reachable_created_with_client [OF assms(1)] assms(2)
  unfolding created_with_client_def by blast

theorem agent_set_needs_client_witness:
  "reachable (snd (startup env_ok init_world))
   \<and> sql_agents (snd (startup env_ok init_world)) \<noteq> None
   \<and> SqlAgentsCreate (default_config (Client 7)) \<in> set (trace (snd (startup env_ok init_world)))
   \<and> project_client (default_config (Client 7)) \<noteq> None
   \<and> azure_client (snd (startup env_ok init_world)) \<noteq> None"
proof -
  have r: "reachable (snd (startup env_ok init_world))"
    by (rule reachable.after_startup [OF reachable.initial])
  have s: "sql_agents (snd (startup env_ok init_world)) \<noteq> None"
    by (simp add: concrete_defs startup_defs)
  have t: "SqlAgentsCreate (default_config (Client 7)) \<in> set (trace (snd (startup env_ok init_world)))"
    by (simp add: concrete_defs startup_defs)
  from agent_set_needs_client [OF r disjI1 [OF s]] r s t show ?thesis
    by blast
qed


section \<open>The application and its health probe\<close>

lemma find_append_none: "find P xs = None \<Longrightarrow> find P (xs @ ys) = find P ys"
  by (induction xs) (auto split: if_splits)

text \<open>No route mounted under \<^verbatim>\<open>/api\<close> answers the path \<^verbatim>\<open>/health\<close>.\<close>

lemma mounted_api_not_health:
  "find (\<lambda>r. route_method r = m \<and> route_path r = ''/health'') (map (mount ''/api'' tags) router) = None"
  by (simp add: find_None_iff mount_def)

text \<open>The application that the import of the module builds, whatever telemetry does.\<close>

lemma create_app_result:
  "\<exists>app. fst (create_app tel backend_router otel_available w) = Inr app
     \<and> title app = ''Code Gen Accelerator'' \<and> version app = ''1.0.0''
     \<and> user_middleware app =
         [CORSMiddleware \<lparr>allow_origins = [''*''], allow_credentials = True,
                          allow_methods = [''*''], allow_headers = [''*'']\<rparr>]
     \<and> routes app = map (mount ''/api'' [''backend'']) backend_router
         @ [\<lparr>route_method = GET, route_path = ''/health'', route_tags = [],
             endpoint = (\<lambda>w. \<lparr>status_code = 200, body = health_check\<rparr>)\<rparr>]"
  by (auto simp add: app_defs prog_defs split: option.splits)

lemma import_module_result:
  "\<exists>app. fst (import_module tel backend_router w) = Inr app
     \<and> title app = ''Code Gen Accelerator'' \<and> version app = ''1.0.0''
     \<and> user_middleware app =
         [CORSMiddleware \<lparr>allow_origins = [''*''], allow_credentials = True,
                          allow_methods = [''*''], allow_headers = [''*'']\<rparr>]
     \<and> routes app = map (mount ''/api'' [''backend'']) backend_router
         @ [\<lparr>route_method = GET, route_path = ''/health'', route_tags = [],
             endpoint = (\<lambda>w. \<lparr>status_code = 200, body = health_check\<rparr>)\<rparr>]"
  by (auto simp add: app_defs prog_defs split: option.splits)

lemma otel_setup_returns: "\<exists>available. fst (otel_setup tel w) = Inr available"
  by (auto simp add: otel_setup_def prog_defs split: option.splits)

text \<open>
  C9. The handler returns the fixed dictionary and takes neither an argument nor the
  process state. For every outcome of the telemetry setup and every backend router, the
  application that the module builds answers \<^verbatim>\<open>GET /health\<close> with status 200 and the body
  \<^verbatim>\<open>{"status": "healthy"}\<close> in every process state \<open>w\<close>.
\<close>

theorem health_always_healthy:
  "health_check = [(''status'', ''healthy'')]
   \<and> (\<exists>app. fst (import_module tel backend_router w0) = Inr app
         \<and> handle_request app w GET ''/health''
             = Some \<lparr>status_code = 200, body = [(''status'', ''healthy'')]\<rparr>)"
proof -
  obtain app where app: "fst (import_module tel backend_router w0) = Inr app"
    and r: "routes app = map (mount ''/api'' [''backend'']) backend_router
         @ [\<lparr>route_method = GET, route_path = ''/health'', route_tags = [],
             endpoint = (\<lambda>w. \<lparr>status_code = 200, body = health_check\<rparr>)\<rparr>]"
    using import_module_result by blast
  have "handle_request app w GET ''/health''
          = Some \<lparr>status_code = 200, body = [(''status'', ''healthy'')]\<rparr>"
    by (simp add: handle_request_def r find_append_none [OF mounted_api_not_health] health_check_def)
  with app show ?thesis
    by (auto simp add: health_check_def)
qed

theorem health_always_healthy_witness:
  "handle_request (projr (fst (import_module otel_broken demo_router init_world)))
      (snd (startup env_broken init_world)) GET ''/health''
     = Some \<lparr>status_code = 200, body = [(''status'', ''healthy'')]\<rparr>
   \<and> handle_request (projr (fst (import_module otel_ok demo_router init_world)))
      ready_world GET ''/health''
     = Some \<lparr>status_code = 200, body = [(''status'', ''healthy'')]\<rparr>"
  using health_always_healthy [of otel_broken demo_router init_world "snd (startup env_broken init_world)"]
        health_always_healthy [of otel_ok demo_router init_world ready_world]
  by auto

text \<open>
  C10. Whatever raises in the telemetry block of the module or in the instrumentation
  of the application, the exception is caught: the telemetry block ends with a value for
  \<^verbatim>\<open>_otel_available\<close>, and \<^verbatim>\<open>create_app\<close>, for either value and also as called by the import
  of the module, returns an application with the permissive CORS middleware, the
  backend router mounted under \<^verbatim>\<open>/api\<close>, and the \<^verbatim>\<open>GET /health\<close> route.
\<close>

theorem telemetry_failure_not_fatal:
  "(\<exists>available. fst (otel_setup tel w) = Inr available)
   \<and> (\<exists>app. fst (create_app tel backend_router otel_available w) = Inr app
         \<and> CORSMiddleware \<lparr>allow_origins = [''*''], allow_credentials = True,
                           allow_methods = [''*''], allow_headers = [''*'']\<rparr>
             \<in> set (user_middleware app)
         \<and> routes app = map (mount ''/api'' [''backend'']) backend_router
             @ [\<lparr>route_method = GET, route_path = ''/health'', route_tags = [],
                 endpoint = (\<lambda>w. \<lparr>status_code = 200, body = health_check\<rparr>)\<rparr>])
   \<and> (\<exists>app. fst (import_module tel backend_router w) = Inr app
         \<and> CORSMiddleware \<lparr>allow_origins = [''*''], allow_credentials = True,
                           allow_methods = [''*''], allow_headers = [''*'']\<rparr>
             \<in> set (user_middleware app)
         \<and> routes app = map (mount ''/api'' [''backend'']) backend_router
             @ [\<lparr>route_method = GET, route_path = ''/health'', route_tags = [],
                 endpoint = (\<lambda>w. \<lparr>status_code = 200, body = health_check\<rparr>)\<rparr>])"
proof -
  obtain a1 where a1: "fst (create_app tel backend_router otel_available w) = Inr a1"
    "user_middleware a1 =
         [CORSMiddleware \<lparr>allow_origins = [''*''], allow_credentials = True,
                          allow_methods = [''*''], allow_headers = [''*'']\<rparr>]"
    "routes a1 = map (mount ''/api'' [''backend'']) backend_router
         @ [\<lparr>route_method = GET, route_path = ''/health'', route_tags = [],
             endpoint = (\<lambda>w. \<lparr>status_code = 200, body = health_check\<rparr>)\<rparr>]"
    using create_app_result by blast
  obtain a2 where a2: "fst (import_module tel backend_router w) = Inr a2"
    "user_middleware a2 =
         [CORSMiddleware \<lparr>allow_origins = [''*''], allow_credentials = True,
                          allow_methods = [''*''], allow_headers = [''*'']\<rparr>]"
    "routes a2 = map (mount ''/api'' [''backend'']) backend_router
         @ [\<lparr>route_method = GET, route_path = ''/health'', route_tags = [],
             endpoint = (\<lambda>w. \<lparr>status_code = 200, body = health_check\<rparr>)\<rparr>]"
    using import_module_result by blast
  from a1 a2 otel_setup_returns [of tel w] show ?thesis
    by simp
qed

theorem telemetry_failure_not_fatal_witness:
  "fst (otel_setup otel_broken init_world) = Inr False
   \<and> routes (projr (fst (create_app (otel_ok\<lparr>instrument_app := Some boom\<rparr>) [] True init_world)))
       = [\<lparr>route_method = GET, route_path = ''/health'', route_tags = [],
           endpoint = (\<lambda>w. \<lparr>status_code = 200, body = health_check\<rparr>)\<rparr>]
   \<and> user_middleware (projr (fst (import_module otel_broken [] init_world)))
       = [CORSMiddleware \<lparr>allow_origins = [''*''], allow_credentials = True,
                          allow_methods = [''*''], allow_headers = [''*'']\<rparr>]"
  using telemetry_failure_not_fatal [of otel_broken init_world "[]" True]
        telemetry_failure_not_fatal [of "otel_ok\<lparr>instrument_app := Some boom\<rparr>" init_world "[]" True]
  by (auto simp add: app_defs prog_defs otel_broken_def otel_ok_def)

end
